theory Spec2Isabelle
  imports Complex_Main "HOL-Library.Sublist"
begin

section \<open>Strings as the router reads them\<close>

text \<open>
  A prompt is a Python \<open>str\<close>. The model covers the prompts whose code points are below
  256, one \<open>char\<close> per code point, so that \<open>length\<close> is Python's \<open>len\<close>. Python floats
  are modelled as real numbers: every decimal literal of the source denotes its decimal
  value and the sums are exact. The code accumulates IEEE doubles, whose sums can differ
  from the exact ones in the last place (0.5 + 0.1 + 0.3 - 0.1 gives 0.7999999999999999):
  an equality between scores below is one of the exact sums.
\<close>

definition lower_char :: "char \<Rightarrow> char" where
  \<comment> \<open>\<open>str.lower\<close> on one code point below 256: A-Z and the upper-case Latin-1 letters.\<close>
  "lower_char c =
     (let n = (of_char c :: nat)
      in if (65 \<le> n \<and> n \<le> 90) \<or> (192 \<le> n \<and> n \<le> 214) \<or> (216 \<le> n \<and> n \<le> 222)
         then char_of (n + 32) else c)"

definition str_lower :: "string \<Rightarrow> string" where
  "str_lower s = map lower_char s"

fun str_contains :: "string \<Rightarrow> string \<Rightarrow> bool" where
  \<comment> \<open>\<open>str_contains s kw\<close> is Python's \<open>kw in s\<close>.\<close>
  "str_contains [] kw = (kw = [])"
| "str_contains (c # cs) kw = (prefix kw (c # cs) \<or> str_contains cs kw)"

definition is_word_char :: "char \<Rightarrow> bool" where
  \<comment> \<open>\<open>\<bsol>w\<close> of the \<open>re\<close> module on a code point below 256: alphanumeric or underscore.\<close>
  "is_word_char c =
     (let n = (of_char c :: nat)
      in (48 \<le> n \<and> n \<le> 57) \<or> (65 \<le> n \<and> n \<le> 90) \<or> n = 95 \<or> (97 \<le> n \<and> n \<le> 122)
         \<or> n = 170 \<or> n = 178 \<or> n = 179 \<or> n = 181 \<or> n = 185 \<or> n = 186
         \<or> n = 188 \<or> n = 189 \<or> n = 190
         \<or> (192 \<le> n \<and> n \<le> 214) \<or> (216 \<le> n \<and> n \<le> 246) \<or> 248 \<le> n)"

fun is_word_opt :: "char option \<Rightarrow> bool" where
  "is_word_opt None = False"
| "is_word_opt (Some c) = is_word_char c"

definition word_boundary :: "char option \<Rightarrow> char option \<Rightarrow> bool" where
  \<comment> \<open>\<open>\<bsol>b\<close> between the previous and the following character (\<open>None\<close> at an end).\<close>
  "word_boundary prev next_c = (is_word_opt prev \<noteq> is_word_opt next_c)"

fun head_opt :: "string \<Rightarrow> char option" where
  "head_opt [] = None"
| "head_opt (c # cs) = Some c"

fun last_opt :: "char option \<Rightarrow> string \<Rightarrow> char option" where
  \<comment> \<open>the last character read once \<open>w\<close> has been read, starting behind \<open>prev\<close>\<close>
  "last_opt prev [] = prev"
| "last_opt prev (c # cs) = last_opt (Some c) cs"

definition word_match_here :: "string \<Rightarrow> char option \<Rightarrow> string \<Rightarrow> bool" where
  \<comment> \<open>\<open>\<bsol>bw\<bsol>b\<close> matches at the start of \<open>s\<close>, the character in front of it being \<open>prev\<close>\<close>
  "word_match_here w prev s =
     (word_boundary prev (head_opt s) \<and> prefix w s
      \<and> word_boundary (last_opt prev w) (head_opt (drop (length w) s)))"

fun search_word :: "string \<Rightarrow> char option \<Rightarrow> string \<Rightarrow> bool" where
  "search_word w prev [] = word_match_here w prev []"
| "search_word w prev (c # cs) =
     (word_match_here w prev (c # cs) \<or> search_word w (Some c) cs)"

datatype pattern =
    Literal string      \<comment> \<open>a literal text\<close>
  | Word string         \<comment> \<open>\<open>\<bsol>bw\<bsol>b\<close>\<close>
  | CharClass string    \<comment> \<open>\<open>[...]\<close>, one character of the set\<close>

fun re_search :: "pattern \<Rightarrow> string \<Rightarrow> bool" where
  \<comment> \<open>whether \<open>re.search(pattern, s)\<close> finds a match\<close>
  "re_search (Literal w) s = str_contains s w"
| "re_search (Word w) s = search_word w None s"
| "re_search (CharClass cs) s = list_ex (\<lambda>c. c \<in> set cs) s"

definition digit_char :: "nat \<Rightarrow> char" where
  "digit_char d = char_of (48 + d)"

function show_nat :: "nat \<Rightarrow> string" where
  "show_nat n = (if n < 10 then [digit_char n] else show_nat (n div 10) @ [digit_char (n mod 10)])"
  by pat_completeness auto
termination
  by (relation "measure id") auto

declare show_nat.simps [simp del]

definition round_half_even :: "real \<Rightarrow> int" where
  "round_half_even x =
     (let f = \<lfloor>x\<rfloor>; d = x - of_int f
      in if d < 1/2 then f else if 1/2 < d then f + 1 else if even f then f else f + 1)"

definition fmt_2f :: "real \<Rightarrow> string" where
  \<comment> \<open>\<open>f"{x:.2f}"\<close> for \<open>0 \<le> x\<close>\<close>
  "fmt_2f x =
     (let n = nat (round_half_even (x * 100))
      in show_nat (n div 100) @ ''.'' @ [digit_char ((n div 10) mod 10), digit_char (n mod 10)])"

fun join :: "string \<Rightarrow> string list \<Rightarrow> string" where
  "join sep [] = []"
| "join sep [x] = x"
| "join sep (x # y # ys) = x @ sep @ join sep (y # ys)"

section \<open>Results of the outbound calls\<close>

datatype jvalue =
    JNull | JBool bool | JNum real | JStr string
  | JArr "jvalue list" | JObj "(string \<times> jvalue) list"

type_synonym dict = "(string \<times> jvalue) list"

datatype error =
    ValueError string     \<comment> \<open>\<open>raise ValueError(...)\<close>\<close>
  | ConnectionError       \<comment> \<open>\<open>requests.post\<close> could not reach the server\<close>
  | Timeout               \<comment> \<open>\<open>requests.post\<close> ran past its timeout\<close>
  | HTTPError nat         \<comment> \<open>\<open>raise_for_status\<close> on a 4xx or 5xx status\<close>
  | JSONDecodeError       \<comment> \<open>\<open>response.json()\<close> on a body that is not JSON\<close>
  | AttributeError        \<comment> \<open>\<open>result.get\<close> on a JSON value that is not an object\<close>
  | APIError              \<comment> \<open>the cloud client raised\<close>
  | IndexError            \<comment> \<open>\<open>message.content[0]\<close> on an empty content\<close>
  | KeyError string       \<comment> \<open>a lookup of a key that a dictionary does not have\<close>

record response =
  status_code :: nat
  body :: "jvalue option"   \<comment> \<open>\<open>None\<close>: the body is not JSON\<close>

record message =
  content :: "string list"   \<comment> \<open>the text of each content block\<close>
  input_tokens :: nat
  output_tokens :: nat

type_synonym anthropic_client = "string \<Rightarrow> error + message"
  \<comment> \<open>what \<open>messages.create\<close> does with the prompt: raises or returns a message\<close>

record env =
  ternary_post :: "string \<Rightarrow> string \<Rightarrow> error + response"
    \<comment> \<open>\<open>requests.post\<close> to the ternary server, for a model and a prompt\<close>
  ollama_post :: "string \<Rightarrow> string \<Rightarrow> error + response"
    \<comment> \<open>\<open>requests.post\<close> to the Ollama server, for a model and a prompt\<close>

section \<open>The router\<close>

record model_config =
  backend :: string
  max_complexity :: real
  cost_per_token :: real
  endpoint :: "string option"
  speed_multiplier :: "real option"
  energy_savings :: "real option"
  cost_per_1m_tokens :: "real option"

definition MODELS :: "string \<rightharpoonup> model_config" where
  "MODELS = map_of
     [(''tinyllama'', \<lparr>backend = ''local'', max_complexity = 0.3, cost_per_token = 0.0,
         endpoint = Some ''http://localhost:11434/api/generate'',
         speed_multiplier = None, energy_savings = None, cost_per_1m_tokens = None\<rparr>),
      (''phi2'', \<lparr>backend = ''local'', max_complexity = 0.6, cost_per_token = 0.0,
         endpoint = Some ''http://localhost:11434/api/generate'',
         speed_multiplier = None, energy_savings = None, cost_per_1m_tokens = None\<rparr>),
      (''bitnet-2b'', \<lparr>backend = ''ternary'', max_complexity = 0.5, cost_per_token = 0.0,
         endpoint = Some ''http://localhost:8003/generate'',
         speed_multiplier = Some 6.0, energy_savings = Some 0.82, cost_per_1m_tokens = None\<rparr>),
      (''mistral-7b-ternary'', \<lparr>backend = ''ternary'', max_complexity = 0.8, cost_per_token = 0.0,
         endpoint = Some ''http://localhost:8003/generate'',
         speed_multiplier = Some 6.0, energy_savings = Some 0.82, cost_per_1m_tokens = None\<rparr>),
      (''claude-sonnet'', \<lparr>backend = ''cloud'', max_complexity = 1.0, cost_per_token = 0.000003,
         endpoint = None,
         speed_multiplier = None, energy_savings = None, cost_per_1m_tokens = Some 3.0\<rparr>)]"

definition COMPLEX_KEYWORDS :: "string list" where
  "COMPLEX_KEYWORDS =
     [''analyze'', ''design'', ''architect'', ''implement'', ''refactor'',
      ''optimize'', ''debug'', ''explain in detail'', ''comprehensive'',
      ''write code'', ''create function'', ''build'', ''develop'']"

definition SIMPLE_KEYWORDS :: "string list" where
  "SIMPLE_KEYWORDS =
     [''summarize'', ''list'', ''what is'', ''define'', ''yes or no'',
      ''classify'', ''categorize'', ''is this'', ''true or false'']"

definition CODE_PATTERNS :: "pattern list" where
  "CODE_PATTERNS =
     [Literal ''```'',
      Word ''def'', Word ''class'', Word ''function'',
      Word ''import'', Word ''from'',
      CharClass ''{}[]();'']"

record router =
  use_local :: bool
  complexity_threshold :: real
  use_ternary :: bool
  ternary_available :: bool
  anthropic_client :: "anthropic_client option"

definition estimate_complexity :: "string \<Rightarrow> real \<times> string" where
  "estimate_complexity prompt =
     (let score = 0.0;
          len = length prompt;
          (length_score, factors) =
            (if len < 100 then (0.1, [''short prompt''])
             else if len < 500 then (0.3, [''medium length''])
             else (0.5, [''long prompt'']));
          score = score + length_score;
          prompt_lower = str_lower prompt;
          complex_count = length (filter (\<lambda>kw. str_contains prompt_lower kw) COMPLEX_KEYWORDS);
          simple_count = length (filter (\<lambda>kw. str_contains prompt_lower kw) SIMPLE_KEYWORDS);
          (keyword_score, factors) =
            (if complex_count > 0
             then (min 0.3 (real complex_count * 0.1),
                   factors @ [show_nat complex_count @ '' complex keywords''])
             else if simple_count > 0 then (- 0.1, factors @ [''simple task keywords''])
             else (0.1, factors @ [''neutral keywords'']));
          score = score + keyword_score;
          code_matches = length (filter (\<lambda>pattern. re_search pattern prompt) CODE_PATTERNS);
          (code_score, factors) =
            (if code_matches \<ge> 2 then (0.3, factors @ [''contains code''])
             else (0.0, factors));
          score = score + code_score;
          (question_score, factors) =
            (if CHR ''?'' \<in> set prompt \<and> count_list prompt (CHR ''?'') \<le> 2
             then (- 0.1, factors @ [''simple question''])
             else if str_contains prompt_lower ''create'' \<or> str_contains prompt_lower ''build''
             then (0.2, factors @ [''creative task''])
             else (0.0, factors));
          score = score + question_score;
          final_score = max 0.0 (min 1.0 score);
          reasoning = ''Complexity '' @ fmt_2f final_score @ '': '' @ join '', '' factors
      in (final_score, reasoning))"

definition select_model :: "router \<Rightarrow> real \<Rightarrow> string" where
  "select_model self complexity =
     (if ternary_available self then
        (if complexity < 0.5 then ''bitnet-2b''
         else if complexity < 0.8 then ''mistral-7b-ternary''
         else ''claude-sonnet'')
      else if \<not> use_local self \<or> complexity > 0.6 then ''claude-sonnet''
      else if complexity < 0.3 then ''tinyllama''
      else ''phi2'')"

definition estimate_cost :: "string \<Rightarrow> string \<Rightarrow> int \<Rightarrow> real" where
  "estimate_cost prompt model response_length =
     (case MODELS model of
        None \<Rightarrow> 0.0
      | Some model_config \<Rightarrow>
          if backend model_config = ''local'' then 0.0
          else
            (let prompt_tokens = real (length prompt) / 4;
                 total_tokens = prompt_tokens + real_of_int response_length;
                 cost = total_tokens * cost_per_token model_config
             in cost))"

section \<open>Executing a request\<close>

text \<open>
  The outbound calls are the only effects of the executors that a caller can observe in
  the returned value: \<open>requests.post\<close> is a field of the environment, and the cloud client
  carries what \<open>messages.create\<close> does. Logging and the Taskwarrior entry do not change
  any returned value and are left out. An exception is a value \<open>Inl e\<close>.
\<close>

definition dict_get :: "dict \<Rightarrow> string \<Rightarrow> jvalue \<Rightarrow> jvalue" where
  \<comment> \<open>\<open>d.get(key, dflt)\<close>\<close>
  "dict_get d key dflt = (case map_of d key of Some v \<Rightarrow> v | None \<Rightarrow> dflt)"

fun dict_set :: "dict \<Rightarrow> string \<Rightarrow> jvalue \<Rightarrow> dict" where
  \<comment> \<open>\<open>d[key] = v\<close>: a present key keeps its place, a new key goes last\<close>
  "dict_set [] key v = [(key, v)]"
| "dict_set ((k, w) # d) key v = (if k = key then (k, v) # d else (k, w) # dict_set d key v)"

definition raise_for_status :: "response \<Rightarrow> error + unit" where
  "raise_for_status response =
     (if 400 \<le> status_code response \<and> status_code response < 600
      then Inl (HTTPError (status_code response)) else Inr ())"

definition response_json :: "response \<Rightarrow> error + jvalue" where
  \<comment> \<open>\<open>response.json()\<close>\<close>
  "response_json response =
     (case body response of None \<Rightarrow> Inl JSONDecodeError | Some v \<Rightarrow> Inr v)"

definition result_get :: "jvalue \<Rightarrow> string \<Rightarrow> jvalue \<Rightarrow> error + jvalue" where
  \<comment> \<open>\<open>result.get(key, dflt)\<close> on the decoded body, which need not be an object\<close>
  "result_get result key dflt =
     (case result of JObj obj \<Rightarrow> Inr (dict_get obj key dflt) | _ \<Rightarrow> Inl AttributeError)"

definition execute_claude_request :: "router \<Rightarrow> string \<Rightarrow> error + dict" where
  "execute_claude_request self prompt =
     (case anthropic_client self of
        None \<Rightarrow> Inl (ValueError ''Anthropic API key not configured'')
      | Some client \<Rightarrow>
          (case client prompt of
             Inl e \<Rightarrow> Inl e
           | Inr message \<Rightarrow>
               (case MODELS ''claude-sonnet'' of
                  None \<Rightarrow> Inl (KeyError ''claude-sonnet'')
                | Some model_config \<Rightarrow>
                    (let cost = real (input_tokens message + output_tokens message)
                                * cost_per_token model_config
                     in case content message of
                          [] \<Rightarrow> Inl IndexError
                        | text # _ \<Rightarrow>
                            Inr [(''model'', JStr ''claude-sonnet''),
                                 (''backend'', JStr ''cloud''),
                                 (''response'', JStr text),
                                 (''input_tokens'', JNum (real (input_tokens message))),
                                 (''output_tokens'', JNum (real (output_tokens message))),
                                 (''cost'', JNum cost)]))))"

definition ternary_try :: "env \<Rightarrow> string \<Rightarrow> string \<Rightarrow> error + dict" where
  \<comment> \<open>the \<open>try\<close> block of \<open>execute_ternary_request\<close>\<close>
  "ternary_try env model prompt =
     (case ternary_post env model prompt of
        Inl e \<Rightarrow> Inl e
      | Inr response \<Rightarrow>
          (case raise_for_status response of
             Inl e \<Rightarrow> Inl e
           | Inr _ \<Rightarrow>
               (case response_json response of
                  Inl e \<Rightarrow> Inl e
                | Inr result \<Rightarrow>
                    (case result_get result ''text'' (JStr '''') of
                       Inl e \<Rightarrow> Inl e
                     | Inr text \<Rightarrow>
                         Inr [(''model'', JStr model),
                              (''backend'', JStr ''ternary''),
                              (''response'', text),
                              (''inference_time_ms'',
                                 dict_get (case result of JObj obj \<Rightarrow> obj | _ \<Rightarrow> [])
                                   ''inference_time_ms'' (JNum 0)),
                              (''tokens_per_second'',
                                 dict_get (case result of JObj obj \<Rightarrow> obj | _ \<Rightarrow> [])
                                   ''tokens_per_second'' (JNum 0)),
                              (''cost'', JNum 0.0),
                              (''quantization'', JStr ''1.58-bit'')]))))"

definition execute_ternary_request :: "router \<Rightarrow> env \<Rightarrow> string \<Rightarrow> string \<Rightarrow> error + dict" where
  "execute_ternary_request self env model prompt =
     (case ternary_try env model prompt of
        Inr result \<Rightarrow> Inr result
      | Inl e \<Rightarrow> execute_claude_request self prompt)"

definition ollama_models :: "string \<rightharpoonup> string" where
  "ollama_models = map_of [(''tinyllama'', ''tinyllama''), (''phi2'', ''phi'')]"

definition execute_ollama_request :: "router \<Rightarrow> env \<Rightarrow> string \<Rightarrow> string \<Rightarrow> error + dict" where
  "execute_ollama_request self env model prompt =
     (let ollama_model = (case ollama_models model of Some m \<Rightarrow> m | None \<Rightarrow> model)
      in case ollama_post env ollama_model prompt of
           Inl e \<Rightarrow> Inl e
         | Inr response \<Rightarrow>
             (case raise_for_status response of
                Inl e \<Rightarrow> Inl e
              | Inr _ \<Rightarrow>
                  (case response_json response of
                     Inl e \<Rightarrow> Inl e
                   | Inr result \<Rightarrow>
                       (case result_get result ''response'' (JStr '''') of
                          Inl e \<Rightarrow> Inl e
                        | Inr text \<Rightarrow>
                            Inr [(''model'', JStr model),
                                 (''backend'', JStr ''local''),
                                 (''response'', text),
                                 (''tokens'',
                                    dict_get (case result of JObj obj \<Rightarrow> obj | _ \<Rightarrow> [])
                                      ''total_duration'' (JNum 0)),
                                 (''cost'', JNum 0.0)]))))"

record RoutingDecision =
  rd_model :: string            \<comment> \<open>the field \<open>model\<close>\<close>
  rd_complexity :: real         \<comment> \<open>the field \<open>complexity\<close>\<close>
  rd_estimated_cost :: real     \<comment> \<open>the field \<open>estimated_cost\<close>\<close>
  rd_reasoning :: string        \<comment> \<open>the field \<open>reasoning\<close>\<close>
  rd_backend :: string          \<comment> \<open>the field \<open>backend\<close>\<close>

definition route_request :: "router \<Rightarrow> string \<Rightarrow> error + RoutingDecision" where
  "route_request self prompt =
     (let (complexity, reasoning) = estimate_complexity prompt;
          model = select_model self complexity
      in case MODELS model of
           None \<Rightarrow> Inl (KeyError model)
         | Some model_config \<Rightarrow>
             (let cost = estimate_cost prompt model 500
              in Inr \<lparr>rd_model = model, rd_complexity = complexity, rd_estimated_cost = cost,
                      rd_reasoning = reasoning, rd_backend = backend model_config\<rparr>))"

definition process_request :: "router \<Rightarrow> env \<Rightarrow> string \<Rightarrow> error + dict" where
  "process_request self env prompt =
     (case route_request self prompt of
        Inl e \<Rightarrow> Inl e
      | Inr decision \<Rightarrow>
          (case (if rd_backend decision = ''ternary''
                 then execute_ternary_request self env (rd_model decision) prompt
                 else if rd_backend decision = ''local''
                 then execute_ollama_request self env (rd_model decision) prompt
                 else execute_claude_request self prompt) of
             Inl e \<Rightarrow> Inl e
           | Inr result \<Rightarrow>
               Inr (dict_set result ''routing''
                      (JObj [(''complexity'', JNum (rd_complexity decision)),
                             (''reasoning'', JStr (rd_reasoning decision)),
                             (''estimated_cost'', JNum (rd_estimated_cost decision))]))))"

section \<open>The gateway's chat endpoint\<close>

text \<open>
  The request body is a JSON object whose fields \<open>prompt\<close> and \<open>model\<close>, when present, are
  strings. The latency is read off the clock and is a parameter; the Prometheus counters
  are left out. The response is the body and the HTTP status.
\<close>

record chat_request =
  req_prompt :: "string option"
  req_model :: "string option"

datatype chat_body =
    ErrorBody string      \<comment> \<open>\<open>{'error': message}\<close>\<close>
  | ExceptionBody error   \<comment> \<open>\<open>{'error': str(e)}\<close> of the handler\<close>
  | ResultBody dict

definition chat_finish :: "real \<Rightarrow> error + dict \<Rightarrow> chat_body \<times> nat" where
  \<comment> \<open>the end of \<open>chat\<close>: the latency is attached, an exception becomes a 500\<close>
  "chat_finish latency outcome =
     (case outcome of
        Inl e \<Rightarrow> (ExceptionBody e, 500)
      | Inr result \<Rightarrow> (ResultBody (dict_set result ''latency_seconds'' (JNum latency)), 200))"

definition manual_routing :: "string \<Rightarrow> error + dict \<Rightarrow> error + dict" where
  \<comment> \<open>the routing metadata of a direct model selection\<close>
  "manual_routing model_override outcome =
     (case outcome of
        Inl e \<Rightarrow> Inl e
      | Inr result \<Rightarrow>
          Inr (dict_set result ''routing''
                 (JObj [(''complexity'', JNum 0),
                        (''reasoning'', JStr (''Manual model selection: '' @ model_override)),
                        (''estimated_cost'', dict_get result ''cost'' (JNum 0))])))"

definition chat :: "router \<Rightarrow> env \<Rightarrow> real \<Rightarrow> chat_request \<Rightarrow> chat_body \<times> nat" where
  "chat self env latency data =
     (case req_prompt data of
        None \<Rightarrow> (ErrorBody ''Missing prompt in request body'', 400)
      | Some prompt \<Rightarrow>
          (let model_override = (case req_model data of Some m \<Rightarrow> m | None \<Rightarrow> ''auto'')
           in if model_override \<noteq> ''auto'' then
                (if model_override \<in> set [''tinyllama'', ''phi2'']
                 then chat_finish latency
                        (manual_routing model_override
                           (execute_ollama_request self env model_override prompt))
                 else if model_override = ''claude-sonnet''
                 then chat_finish latency
                        (manual_routing model_override (execute_claude_request self prompt))
                 else (ErrorBody (''Unknown model: '' @ model_override), 400))
              else chat_finish latency (process_request self env prompt)))"

section \<open>The outbound calls of a request\<close>

text \<open>
  The same functions with the outbound calls written down: each takes the list of calls
  made so far and returns it with its own calls appended, in the order the source makes
  them. The returned value is that of the function above.
\<close>

datatype call =
    PostTernary string string   \<comment> \<open>\<open>requests.post\<close> to the ternary server: model, prompt\<close>
  | PostOllama string string    \<comment> \<open>\<open>requests.post\<close> to the Ollama server: Ollama model, prompt\<close>
  | CreateMessage string        \<comment> \<open>\<open>messages.create\<close> of the cloud client: prompt\<close>

definition execute_claude_request_io ::
  "router \<Rightarrow> string \<Rightarrow> call list \<Rightarrow> (error + dict) \<times> call list" where
  "execute_claude_request_io self prompt calls =
     (case anthropic_client self of
        None \<Rightarrow> (Inl (ValueError ''Anthropic API key not configured''), calls)
      | Some client \<Rightarrow> (execute_claude_request self prompt, calls @ [CreateMessage prompt]))"

definition execute_ternary_request_io ::
  "router \<Rightarrow> env \<Rightarrow> string \<Rightarrow> string \<Rightarrow> call list \<Rightarrow> (error + dict) \<times> call list" where
  "execute_ternary_request_io self env model prompt calls =
     (let calls = calls @ [PostTernary model prompt]
      in case ternary_try env model prompt of
           Inr result \<Rightarrow> (Inr result, calls)
         | Inl e \<Rightarrow> execute_claude_request_io self prompt calls)"

definition execute_ollama_request_io ::
  "router \<Rightarrow> env \<Rightarrow> string \<Rightarrow> string \<Rightarrow> call list \<Rightarrow> (error + dict) \<times> call list" where
  "execute_ollama_request_io self env model prompt calls =
     (let ollama_model = (case ollama_models model of Some m \<Rightarrow> m | None \<Rightarrow> model)
      in (execute_ollama_request self env model prompt,
          calls @ [PostOllama ollama_model prompt]))"

definition process_request_io ::
  "router \<Rightarrow> env \<Rightarrow> string \<Rightarrow> call list \<Rightarrow> (error + dict) \<times> call list" where
  "process_request_io self env prompt calls =
     (case route_request self prompt of
        Inl e \<Rightarrow> (Inl e, calls)
      | Inr decision \<Rightarrow>
          (let (outcome, calls) =
                 (if rd_backend decision = ''ternary''
                  then execute_ternary_request_io self env (rd_model decision) prompt calls
                  else if rd_backend decision = ''local''
                  then execute_ollama_request_io self env (rd_model decision) prompt calls
                  else execute_claude_request_io self prompt calls)
           in case outcome of
                Inl e \<Rightarrow> (Inl e, calls)
              | Inr result \<Rightarrow>
                  (Inr (dict_set result ''routing''
                         (JObj [(''complexity'', JNum (rd_complexity decision)),
                                (''reasoning'', JStr (rd_reasoning decision)),
                                (''estimated_cost'', JNum (rd_estimated_cost decision))])),
                   calls)))"

definition chat_io ::
  "router \<Rightarrow> env \<Rightarrow> real \<Rightarrow> chat_request \<Rightarrow> call list \<Rightarrow> (chat_body \<times> nat) \<times> call list" where
  "chat_io self env latency data calls =
     (case req_prompt data of
        None \<Rightarrow> ((ErrorBody ''Missing prompt in request body'', 400), calls)
      | Some prompt \<Rightarrow>
          (let model_override = (case req_model data of Some m \<Rightarrow> m | None \<Rightarrow> ''auto'')
           in if model_override \<noteq> ''auto'' then
                (if model_override \<in> set [''tinyllama'', ''phi2'']
                 then (let (outcome, calls) =
                             execute_ollama_request_io self env model_override prompt calls
                       in (chat_finish latency (manual_routing model_override outcome), calls))
                 else if model_override = ''claude-sonnet''
                 then (let (outcome, calls) = execute_claude_request_io self prompt calls
                       in (chat_finish latency (manual_routing model_override outcome), calls))
                 else ((ErrorBody (''Unknown model: '' @ model_override), 400), calls))
              else (let (outcome, calls) = process_request_io self env prompt calls
                    in (chat_finish latency outcome, calls))))"

text \<open>Environments and clients for concrete runs.\<close>

definition failing_env :: "error \<Rightarrow> env" where
  \<comment> \<open>every outbound post raises \<open>e\<close>\<close>
  "failing_env e = \<lparr>ternary_post = (\<lambda>_ _. Inl e), ollama_post = (\<lambda>_ _. Inl e)\<rparr>"

definition status_env :: "nat \<Rightarrow> env" where
  \<comment> \<open>every outbound post is answered with the status \<open>code\<close> and no JSON body\<close>
  "status_env code =
     \<lparr>ternary_post = (\<lambda>_ _. Inr \<lparr>status_code = code, body = None\<rparr>),
      ollama_post = (\<lambda>_ _. Inr \<lparr>status_code = code, body = None\<rparr>)\<rparr>"

definition echo_client :: anthropic_client where
  \<comment> \<open>a cloud client that answers with the prompt and reports 10 and 20 tokens\<close>
  "echo_client prompt = Inr \<lparr>content = [prompt], input_tokens = 10, output_tokens = 20\<rparr>"

definition cloud_router :: router where
  \<comment> \<open>the ternary runtime was available at start-up and an API key is set\<close>
  "cloud_router =
     \<lparr>use_local = True, complexity_threshold = 0.5, use_ternary = True,
      ternary_available = True, anthropic_client = Some echo_client\<rparr>"

definition ternary_router :: router where
  \<comment> \<open>the ternary runtime was available at start-up and no API key is set\<close>
  "ternary_router =
     \<lparr>use_local = True, complexity_threshold = 0.5, use_ternary = True,
      ternary_available = True, anthropic_client = None\<rparr>"

section \<open>The four factors of the estimate\<close>

text \<open>
  The sub-expressions of \<open>estimate_complexity\<close>, named after the source's local variables,
  and the score written as their clamped sum.
\<close>

definition length_score :: "string \<Rightarrow> real" where
  "length_score prompt =
     (if length prompt < 100 then 0.1 else if length prompt < 500 then 0.3 else 0.5)"

definition complex_count :: "string \<Rightarrow> nat" where
  "complex_count prompt =
     length (filter (\<lambda>kw. str_contains (str_lower prompt) kw) COMPLEX_KEYWORDS)"

definition simple_count :: "string \<Rightarrow> nat" where
  "simple_count prompt =
     length (filter (\<lambda>kw. str_contains (str_lower prompt) kw) SIMPLE_KEYWORDS)"

definition keyword_score :: "string \<Rightarrow> real" where
  "keyword_score prompt =
     (if complex_count prompt > 0 then min 0.3 (real (complex_count prompt) * 0.1)
      else if simple_count prompt > 0 then - 0.1 else 0.1)"

definition code_matches :: "string \<Rightarrow> nat" where
  "code_matches prompt = length (filter (\<lambda>pattern. re_search pattern prompt) CODE_PATTERNS)"

definition code_score :: "string \<Rightarrow> real" where
  "code_score prompt = (if code_matches prompt \<ge> 2 then 0.3 else 0.0)"

definition question_score :: "string \<Rightarrow> real" where
  "question_score prompt =
     (if CHR ''?'' \<in> set prompt \<and> count_list prompt (CHR ''?'') \<le> 2 then - 0.1
      else if str_contains (str_lower prompt) ''create'' \<or> str_contains (str_lower prompt) ''build''
      then 0.2 else 0.0)"

definition standard_router :: router where
  \<comment> \<open>\<open>SmartRouter()\<close> when the health probe fails and no API key is set\<close>
  "standard_router =
     \<lparr>use_local = True, complexity_threshold = 0.5, use_ternary = True,
      ternary_available = False, anthropic_client = None\<rparr>"

text \<open>Prompts of more than 500 characters: 500 letters x in front of a short text.\<close>

definition padded_prompt :: "string \<Rightarrow> string" where
  "padded_prompt s = replicate 500 (CHR ''x'') @ s"

definition fenced_question :: string where
  "fenced_question = padded_prompt '' implement ```?''"

definition fenced_brackets :: string where
  "fenced_brackets = padded_prompt '' implement ```()''"

lemma estimate_complexity_score:
  "fst (estimate_complexity prompt) =
     max 0 (min 1 (length_score prompt + keyword_score prompt + code_score prompt
                   + question_score prompt))"
  unfolding estimate_complexity_def length_score_def keyword_score_def code_score_def
    question_score_def complex_count_def simple_count_def code_matches_def Let_def
  by (simp only: split_def fst_conv snd_conv if_distrib [of fst] if_distrib [of snd])

lemma estimate_complexity_empty:
  "estimate_complexity '''' = (0.2, ''Complexity 0.20: short prompt, neutral keywords'')"
  by code_simp

section \<open>Cost estimation\<close>

text \<open>
  C3, as the source computes it: for every prompt, the estimated cost of the cloud backend
  with the default response length 500 is (len(prompt) / 4 + 500) times the rate 0.000003,
  where the division is Python's true division: the quotient is not rounded up.
\<close>

theorem estimate_cost_cloud:
  "estimate_cost prompt ''claude-sonnet'' 500 = (real (length prompt) / 4 + 500) * 0.000003"
  by (simp add: estimate_cost_def MODELS_def)

text \<open>
  C3 as the specification words it, with the ceiling of len(prompt) / 4, fails on a prompt
  of one character: the code charges 500.25 tokens, the ceiling would charge 501.
\<close>

theorem estimate_cost_ceiling_counterexample:
  "estimate_cost ''a'' ''claude-sonnet'' 500
     \<noteq> (real_of_int \<lceil>real (length ''a'') / 4\<rceil> + 500) * 0.000003"
proof -
  have "\<lceil>(1::real) / 4\<rceil> = 1"
    by (rule ceiling_unique) simp_all
  then show ?thesis
    by (simp add: estimate_cost_def MODELS_def)
qed

text \<open>
  C6: for every prompt and every response length, the estimated cost of a backend whose
  tier is local or ternary is exactly 0. The local tier returns 0.0 at once; a ternary
  backend goes through the product with its rate 0.0.
\<close>

theorem estimate_cost_free_tiers:
  assumes "MODELS model = Some model_config"
    and "backend model_config = ''local'' \<or> backend model_config = ''ternary''"
  shows "estimate_cost prompt model response_length = 0"
  using assms by (auto simp add: estimate_cost_def MODELS_def split: if_splits)

theorem estimate_cost_free_tiers_witness:
  "estimate_cost ''test prompt'' ''tinyllama'' 500 = 0
   \<and> estimate_cost ''test prompt'' ''phi2'' 500 = 0
   \<and> estimate_cost ''test prompt'' ''bitnet-2b'' 500 = 0
   \<and> estimate_cost ''test prompt'' ''mistral-7b-ternary'' 500 = 0"
proof -
  have 1: "MODELS ''tinyllama'' = Some (the (MODELS ''tinyllama''))"
    and 2: "MODELS ''phi2'' = Some (the (MODELS ''phi2''))"
    and 3: "MODELS ''bitnet-2b'' = Some (the (MODELS ''bitnet-2b''))"
    and 4: "MODELS ''mistral-7b-ternary'' = Some (the (MODELS ''mistral-7b-ternary''))"
    by (simp_all add: MODELS_def)
  have "estimate_cost ''test prompt'' ''tinyllama'' 500 = 0"
    by (rule estimate_cost_free_tiers [OF 1]) (simp add: MODELS_def)
  moreover have "estimate_cost ''test prompt'' ''phi2'' 500 = 0"
    by (rule estimate_cost_free_tiers [OF 2]) (simp add: MODELS_def)
  moreover have "estimate_cost ''test prompt'' ''bitnet-2b'' 500 = 0"
    by (rule estimate_cost_free_tiers [OF 3]) (simp add: MODELS_def)
  moreover have "estimate_cost ''test prompt'' ''mistral-7b-ternary'' 500 = 0"
    by (rule estimate_cost_free_tiers [OF 4]) (simp add: MODELS_def)
  ultimately show ?thesis by simp
qed

section \<open>Model selection\<close>

text \<open>
  C4: for every complexity in [0,1] and every setting of the ternary-availability and
  local-routing flags, the backend that \<open>select_model\<close> returns is configured, and its
  \<open>max_complexity\<close> is at least the complexity, or else it is the cloud backend, whose
  \<open>max_complexity\<close> is 1.0.
\<close>

theorem select_model_capable:
  assumes "0 \<le> complexity" and "complexity \<le> 1"
  shows "\<exists>model_config. MODELS (select_model self complexity) = Some model_config
           \<and> (complexity \<le> max_complexity model_config
                \<or> (select_model self complexity = ''claude-sonnet''
                    \<and> max_complexity model_config = 1))"
  using assms by (simp add: select_model_def MODELS_def)

theorem select_model_capable_witness:
  "\<exists>model_config. MODELS (select_model standard_router 0.5) = Some model_config
     \<and> (0.5 \<le> max_complexity model_config
          \<or> (select_model standard_router 0.5 = ''claude-sonnet''
              \<and> max_complexity model_config = 1))"
  using select_model_capable [of "0.5" standard_router] by simp

section \<open>The complexity estimate\<close>

text \<open>
  C8: for every prompt, \<open>estimate_complexity\<close> returns a pair of a score and a reasoning
  (it is total: the empty prompt is an input like any other), and the score lies in the
  closed interval [0,1].
\<close>

theorem estimate_complexity_bounds:
  "\<exists>score reasoning. estimate_complexity prompt = (score, reasoning) \<and> 0 \<le> score \<and> score \<le> 1"
proof -
  have "0 \<le> fst (estimate_complexity prompt) \<and> fst (estimate_complexity prompt) \<le> 1"
    by (simp add: estimate_complexity_score)
  then show ?thesis
    by (cases "estimate_complexity prompt") auto
qed

text \<open>
  C2, as the source computes it: the empty prompt scores 0.2 (0.1 for the short length and
  0.1 for the neutral keywords); with the ternary runtime unavailable and local routing
  enabled it is routed to tinyllama, the smallest local backend, at an estimated cost of 0.
\<close>

theorem empty_prompt_routing:
  assumes "\<not> ternary_available self" and "use_local self"
  shows "fst (estimate_complexity '''') = 0.2
         \<and> select_model self (fst (estimate_complexity '''')) = ''tinyllama''
         \<and> estimate_cost '''' (select_model self (fst (estimate_complexity ''''))) 500 = 0"
  using assms
  by (simp add: estimate_complexity_empty select_model_def estimate_cost_def MODELS_def)

theorem empty_prompt_routing_witness:
  "fst (estimate_complexity '''') = 0.2
   \<and> select_model standard_router (fst (estimate_complexity '''')) = ''tinyllama''
   \<and> estimate_cost '''' (select_model standard_router (fst (estimate_complexity ''''))) 500 = 0"
proof -
  have "\<not> ternary_available standard_router" and "use_local standard_router"
    by (simp_all add: standard_router_def)
  then show ?thesis
    by (rule empty_prompt_routing)
qed

text \<open>
  C2 as the specification words it, with the score 0.1, fails: the neutral keyword factor
  adds 0.1 to the length factor.
\<close>

theorem empty_prompt_score_counterexample:
  "fst (estimate_complexity '''') \<noteq> 0.1"
  by (simp add: estimate_complexity_empty)

section \<open>Substrings and pattern matches under appending\<close>

lemma str_contains_Nil: "str_contains s []"
  by (cases s) simp_all

lemma str_contains_set: "str_contains s kw \<Longrightarrow> set kw \<subseteq> set s"
proof (induction s)
  case Nil
  then show ?case by simp
next
  case (Cons c cs)
  then show ?case
    using set_mono_prefix [of kw "c # cs"] by auto
qed

lemma prefix_append_disjoint:
  assumes "prefix kw (s @ t)" and "set kw \<inter> set t = {}"
  shows "prefix kw s"
proof -
  from assms(1) consider "prefix kw s" | us where "kw = s @ us" and "prefix us t"
    by (auto simp: prefix_append)
  then show ?thesis
  proof cases
    case 1
    then show ?thesis .
  next
    case 2
    then have "set us \<subseteq> set kw \<inter> set t"
      using set_mono_prefix [of us t] by auto
    with assms(2) have "us = []" by auto
    with 2 show ?thesis by simp
  qed
qed

lemma str_contains_append_disjoint:
  assumes "kw \<noteq> []" and "set kw \<inter> set t = {}"
  shows "str_contains (s @ t) kw = str_contains s kw"
proof (induction s)
  case Nil
  have "\<not> str_contains t kw"
  proof
    assume "str_contains t kw"
    then have "set kw \<subseteq> set t" by (rule str_contains_set)
    then have "set kw \<inter> set t = set kw" by (rule inf_absorb1)
    with assms(2) have "set kw = {}" by simp
    with assms(1) show False by simp
  qed
  with assms(1) show ?case by simp
next
  case (Cons c cs)
  have "prefix kw ((c # cs) @ t) = prefix kw (c # cs)"
    using prefix_append_disjoint [OF _ assms(2), of "c # cs"] prefix_prefix [of kw "c # cs" t]
    by blast
  then have "str_contains ((c # cs) @ t) kw = (prefix kw (c # cs) \<or> str_contains (cs @ t) kw)"
    by (simp only: append_Cons str_contains.simps)
  also have "\<dots> = str_contains (c # cs) kw"
    by (simp only: Cons.IH str_contains.simps)
  finally show ?case .
qed

lemma str_contains_appendI: "str_contains s kw \<Longrightarrow> str_contains (s @ t) kw"
proof (induction s)
  case Nil
  then show ?case by (simp add: str_contains_Nil)
next
  case (Cons c cs)
  from Cons.prems consider "prefix kw (c # cs)" | "str_contains cs kw"
    by (simp only: str_contains.simps) blast
  then show ?case
  proof cases
    case 1
    then have "prefix kw ((c # cs) @ t)" by (rule prefix_prefix)
    then show ?thesis by (simp only: append_Cons str_contains.simps) simp
  next
    case 2
    then have "str_contains (cs @ t) kw" by (rule Cons.IH)
    then show ?thesis by (simp only: append_Cons str_contains.simps) simp
  qed
qed

lemma str_contains_appendI2: "str_contains t kw \<Longrightarrow> str_contains (s @ t) kw"
  by (induction s) simp_all

lemma is_word_head_append:
  "\<not> is_word_char c \<Longrightarrow> is_word_opt (head_opt (s @ c # t)) = is_word_opt (head_opt s)"
  by (cases s) simp_all

lemma word_match_here_append:
  assumes "\<not> is_word_char c" and "word_match_here w prev s"
  shows "word_match_here w prev (s @ c # t)"
proof -
  from assms(2) have p: "prefix w s"
    by (simp add: word_match_here_def)
  then have "length w \<le> length s"
    by (rule prefix_length_le)
  then have d: "drop (length w) (s @ c # t) = drop (length w) s @ c # t"
    by simp
  from p have q: "prefix w (s @ c # t)"
    by (rule prefix_prefix)
  from assms(2) show ?thesis
    unfolding word_match_here_def word_boundary_def d
    by (simp only: is_word_head_append [OF assms(1)] q) simp
qed

lemma search_word_append:
  "\<not> is_word_char c \<Longrightarrow> search_word w prev s \<Longrightarrow> search_word w prev (s @ c # t)"
proof (induction s arbitrary: prev)
  case Nil
  then have "word_match_here w prev []" by simp
  with Nil.prems(1) have "word_match_here w prev ([] @ c # t)"
    by (rule word_match_here_append)
  then show ?case by simp
next
  case (Cons a s)
  from Cons.prems(2) consider "word_match_here w prev (a # s)" | "search_word w (Some a) s"
    by (simp only: search_word.simps) blast
  then show ?case
  proof cases
    case 1
    with Cons.prems(1) have "word_match_here w prev ((a # s) @ c # t)"
      by (rule word_match_here_append)
    then show ?thesis by simp
  next
    case 2
    with Cons.prems(1) have "search_word w (Some a) (s @ c # t)"
      by (rule Cons.IH)
    then show ?thesis by simp
  qed
qed

lemma re_search_append:
  assumes "\<not> is_word_char c" and "re_search pat s"
  shows "re_search pat (s @ c # t)"
proof (cases pat)
  case (Literal w)
  with assms(2) show ?thesis by (simp add: str_contains_appendI)
next
  case (Word w)
  with assms show ?thesis by (simp add: search_word_append)
next
  case (CharClass cs)
  with assms(2) show ?thesis by (simp add: list_ex_iff) blast
qed

lemma length_filter_mono:
  "(\<And>x. x \<in> set xs \<Longrightarrow> P x \<Longrightarrow> Q x) \<Longrightarrow> length (filter P xs) \<le> length (filter Q xs)"
  by (induction xs) auto

section \<open>Appending a code fence\<close>

lemma str_lower_fence: "str_lower (p @ ''```'') = str_lower p @ ''```''"
  by (simp add: str_lower_def lower_char_def)

lemma fence_not_word: "\<not> is_word_char (CHR ''`'')"
  by (simp add: is_word_char_def)

lemma str_contains_fence:
  assumes "kw \<noteq> []" and "CHR ''`'' \<notin> set kw"
  shows "str_contains (s @ ''```'') kw = str_contains s kw"
proof -
  from assms(2) have "set kw \<inter> set ''```'' = {}" by simp
  with assms(1) show ?thesis by (rule str_contains_append_disjoint)
qed

lemma complex_keywords_plain:
  "kw \<in> set COMPLEX_KEYWORDS \<Longrightarrow> kw \<noteq> [] \<and> CHR ''`'' \<notin> set kw"
proof -
  have "list_all (\<lambda>kw. kw \<noteq> [] \<and> CHR ''`'' \<notin> set kw) COMPLEX_KEYWORDS"
    by (simp add: COMPLEX_KEYWORDS_def)
  then show "kw \<in> set COMPLEX_KEYWORDS \<Longrightarrow> kw \<noteq> [] \<and> CHR ''`'' \<notin> set kw"
    by (simp add: list_all_iff)
qed

lemma simple_keywords_plain:
  "kw \<in> set SIMPLE_KEYWORDS \<Longrightarrow> kw \<noteq> [] \<and> CHR ''`'' \<notin> set kw"
proof -
  have "list_all (\<lambda>kw. kw \<noteq> [] \<and> CHR ''`'' \<notin> set kw) SIMPLE_KEYWORDS"
    by (simp add: SIMPLE_KEYWORDS_def)
  then show "kw \<in> set SIMPLE_KEYWORDS \<Longrightarrow> kw \<noteq> [] \<and> CHR ''`'' \<notin> set kw"
    by (simp add: list_all_iff)
qed

lemma complex_count_fence: "complex_count (p @ ''```'') = complex_count p"
proof -
  have "filter (\<lambda>kw. str_contains (str_lower p @ ''```'') kw) COMPLEX_KEYWORDS
        = filter (\<lambda>kw. str_contains (str_lower p) kw) COMPLEX_KEYWORDS"
    by (rule filter_cong [OF refl]) (simp add: complex_keywords_plain str_contains_fence)
  then show ?thesis
    by (simp only: complex_count_def str_lower_fence)
qed

lemma simple_count_fence: "simple_count (p @ ''```'') = simple_count p"
proof -
  have "filter (\<lambda>kw. str_contains (str_lower p @ ''```'') kw) SIMPLE_KEYWORDS
        = filter (\<lambda>kw. str_contains (str_lower p) kw) SIMPLE_KEYWORDS"
    by (rule filter_cong [OF refl]) (simp add: simple_keywords_plain str_contains_fence)
  then show ?thesis
    by (simp only: simple_count_def str_lower_fence)
qed

lemma keyword_score_fence: "keyword_score (p @ ''```'') = keyword_score p"
  by (simp only: keyword_score_def complex_count_fence simple_count_fence)

lemma code_matches_fence: "code_matches p \<le> code_matches (p @ ''```'')"
  unfolding code_matches_def
proof (rule length_filter_mono)
  fix pat
  assume "re_search pat p"
  with fence_not_word show "re_search pat (p @ ''```'')"
    by (rule re_search_append)
qed

lemma code_score_fence: "code_score p \<le> code_score (p @ ''```'')"
  using code_matches_fence [of p] by (simp add: code_score_def)

lemma question_score_fence: "question_score (p @ ''```'') = question_score p"
  unfolding question_score_def str_lower_fence
  by (simp add: str_contains_fence)

lemma length_score_fence: "length_score p \<le> length_score (p @ ''```'')"
  by (simp add: length_score_def)

text \<open>
  C7: for every prompt, the score of the prompt with a code fence marker appended is at
  least the score of the prompt alone. The three characters can only move the length to a
  higher bucket and add a code pattern; no keyword, question mark or other pattern match is
  lost or gained.
\<close>

theorem code_fence_monotone:
  "fst (estimate_complexity p) \<le> fst (estimate_complexity (p @ ''```''))"
proof -
  have "length_score p + keyword_score p + code_score p + question_score p
        \<le> length_score (p @ ''```'') + keyword_score (p @ ''```'') + code_score (p @ ''```'')
           + question_score (p @ ''```'')"
    using length_score_fence [of p] code_score_fence [of p]
    by (simp add: keyword_score_fence question_score_fence)
  then show ?thesis
    unfolding estimate_complexity_score by (intro max.mono min.mono order_refl)
qed

section \<open>Long prompts with a code fence and the word implement\<close>

lemma str_contains_replicate:
  assumes "kw \<noteq> []" and "hd kw \<noteq> c"
  shows "str_contains (replicate n c @ s) kw = str_contains s kw"
proof (induction n)
  case 0
  show ?case by simp
next
  case (Suc n)
  from assms have "\<not> prefix kw (c # replicate n c @ s)"
    by (cases kw) simp_all
  with Suc show ?case by simp
qed

lemma search_word_replicate_Suc:
  assumes "w \<noteq> []" and "hd w \<noteq> c"
  shows "search_word w prev (replicate (Suc n) c @ s) = search_word w (Some c) s"
proof (induction n arbitrary: prev)
  case 0
  from assms have "\<not> prefix w (c # s)"
    by (cases w) simp_all
  then show ?case by (simp add: word_match_here_def)
next
  case (Suc n)
  from assms have "\<not> prefix w (c # replicate (Suc n) c @ s)"
    by (cases w) simp_all
  then have "search_word w prev (replicate (Suc (Suc n)) c @ s)
             = search_word w (Some c) (replicate (Suc n) c @ s)"
    by (simp add: word_match_here_def)
  with Suc show ?case by simp
qed

lemma search_word_replicate:
  assumes "w \<noteq> []" and "hd w \<noteq> c" and "0 < n"
  shows "search_word w prev (replicate n c @ s) = search_word w (Some c) s"
proof -
  from assms(3) obtain m where n: "n = Suc m"
    by (cases n) simp_all
  from assms(1,2) show ?thesis
    unfolding n by (rule search_word_replicate_Suc)
qed

lemma str_lower_replicate:
  "str_lower (replicate n c @ s) = replicate n (lower_char c) @ str_lower s"
  by (simp add: str_lower_def)

lemma count_list_pad: "c \<noteq> a \<Longrightarrow> count_list (replicate n c @ s) a = count_list s a"
  by (induction n) simp_all

lemma list_ex_replicate_False: "\<not> P c \<Longrightarrow> \<not> list_ex P (replicate n c)"
  by (induction n) simp_all

lemma lower_x: "lower_char (CHR ''x'') = CHR ''x''"
  by (simp add: lower_char_def)

lemma keywords_not_x:
  "list_all (\<lambda>kw. kw \<noteq> [] \<and> hd kw \<noteq> CHR ''x'') COMPLEX_KEYWORDS"
  "list_all (\<lambda>kw. kw \<noteq> [] \<and> hd kw \<noteq> CHR ''x'') SIMPLE_KEYWORDS"
  by (simp_all add: COMPLEX_KEYWORDS_def SIMPLE_KEYWORDS_def)

lemma complex_count_padded: "complex_count (padded_prompt s) = complex_count s"
proof -
  have "filter (\<lambda>kw. str_contains (replicate 500 (CHR ''x'') @ str_lower s) kw) COMPLEX_KEYWORDS
        = filter (\<lambda>kw. str_contains (str_lower s) kw) COMPLEX_KEYWORDS"
    by (rule filter_cong [OF refl])
       (use keywords_not_x(1) in \<open>simp add: list_all_iff str_contains_replicate\<close>)
  then show ?thesis
    by (simp only: complex_count_def padded_prompt_def str_lower_replicate lower_x)
qed

lemma simple_count_padded: "simple_count (padded_prompt s) = simple_count s"
proof -
  have "filter (\<lambda>kw. str_contains (replicate 500 (CHR ''x'') @ str_lower s) kw) SIMPLE_KEYWORDS
        = filter (\<lambda>kw. str_contains (str_lower s) kw) SIMPLE_KEYWORDS"
    by (rule filter_cong [OF refl])
       (use keywords_not_x(2) in \<open>simp add: list_all_iff str_contains_replicate\<close>)
  then show ?thesis
    by (simp only: simple_count_def padded_prompt_def str_lower_replicate lower_x)
qed

lemma keyword_score_padded: "keyword_score (padded_prompt s) = keyword_score s"
  by (simp only: keyword_score_def complex_count_padded simple_count_padded)

lemma length_score_padded: "length_score (padded_prompt s) = 0.5"
  by (simp add: length_score_def padded_prompt_def)

lemma question_score_padded: "question_score (padded_prompt s) = question_score s"
  unfolding question_score_def padded_prompt_def str_lower_replicate lower_x
  by (simp add: str_contains_replicate count_list_pad)

lemma code_matches_padded:
  "code_matches (padded_prompt s) =
     length (filter (\<lambda>b. b)
       [str_contains s ''```'',
        search_word ''def'' (Some (CHR ''x'')) s, search_word ''class'' (Some (CHR ''x'')) s,
        search_word ''function'' (Some (CHR ''x'')) s,
        search_word ''import'' (Some (CHR ''x'')) s, search_word ''from'' (Some (CHR ''x'')) s,
        list_ex (\<lambda>c. c \<in> set ''{}[]();'') s])"
  unfolding code_matches_def padded_prompt_def CODE_PATTERNS_def
  by (simp add: str_contains_replicate search_word_replicate list_ex_replicate_False)

lemma fenced_question_score: "fst (estimate_complexity fenced_question) = 0.5"
proof -
  have "keyword_score '' implement ```?'' = 0.1"
    by (simp add: keyword_score_def complex_count_def simple_count_def
        COMPLEX_KEYWORDS_def SIMPLE_KEYWORDS_def str_lower_def lower_char_def)
  moreover have "question_score '' implement ```?'' = - 0.1"
    by (simp add: question_score_def)
  moreover have "code_score fenced_question = 0"
    unfolding code_score_def fenced_question_def code_matches_padded
    by (simp add: word_match_here_def word_boundary_def is_word_char_def)
  ultimately show ?thesis
    unfolding estimate_complexity_score fenced_question_def
      keyword_score_padded question_score_padded length_score_padded
    by (simp add: fenced_question_def)
qed

lemma filter_length_pos: "x \<in> set xs \<Longrightarrow> P x \<Longrightarrow> 0 < length (filter P xs)"
  by (rule length_pos_if_in_set [of x]) simp

lemma complex_count_implement:
  assumes "str_contains (str_lower prompt) ''implement''"
  shows "0 < complex_count prompt"
proof -
  have "''implement'' \<in> set COMPLEX_KEYWORDS"
    by (simp add: COMPLEX_KEYWORDS_def)
  then have "0 < length (filter (\<lambda>kw. str_contains (str_lower prompt) kw) COMPLEX_KEYWORDS)"
    using assms by (rule filter_length_pos)
  then show ?thesis
    by (simp only: complex_count_def)
qed

lemma keyword_score_complex: "0 < complex_count prompt \<Longrightarrow> 0.1 \<le> keyword_score prompt"
  by (simp add: keyword_score_def)

lemma question_score_lower: "- 0.1 \<le> question_score prompt"
  by (simp add: question_score_def)

lemma code_matches_two:
  assumes "str_contains prompt ''```''"
    and "pattern \<in> set (tl CODE_PATTERNS)" and "re_search pattern prompt"
  shows "2 \<le> code_matches prompt"
proof -
  have "0 < length (filter (\<lambda>pattern. re_search pattern prompt) (tl CODE_PATTERNS))"
    using assms(2,3) by (rule filter_length_pos)
  moreover have "code_matches prompt
      = 1 + length (filter (\<lambda>pattern. re_search pattern prompt) (tl CODE_PATTERNS))"
    using assms(1) by (simp add: code_matches_def CODE_PATTERNS_def)
  ultimately show ?thesis by linarith
qed

text \<open>
  Where the code factor applies: a prompt longer than 500 characters with a code fence
  marker, the word "implement" in any letter case, and one further code pattern scores
  above 0.6 and goes to the cloud backend when the ternary runtime is unavailable.
\<close>

lemma fenced_code_implement_cloud:
  assumes "500 < length prompt"
    and "str_contains prompt ''```''" and "str_contains (str_lower prompt) ''implement''"
    and "pattern \<in> set (tl CODE_PATTERNS)" and "re_search pattern prompt"
    and "\<not> ternary_available self"
  shows "0.6 < fst (estimate_complexity prompt)
         \<and> select_model self (fst (estimate_complexity prompt)) = ''claude-sonnet''
         \<and> 0 < estimate_cost prompt (select_model self (fst (estimate_complexity prompt))) 500"
proof -
  have "length_score prompt = 0.5"
    using assms(1) by (simp add: length_score_def)
  moreover have "0.1 \<le> keyword_score prompt"
    using assms(3) by (intro keyword_score_complex complex_count_implement)
  moreover have "code_score prompt = 0.3"
    using code_matches_two [OF assms(2,4,5)] by (simp add: code_score_def)
  moreover note question_score_lower [of prompt]
  ultimately have "0.6 < length_score prompt + keyword_score prompt + code_score prompt
                        + question_score prompt"
    by simp
  then have s: "0.6 < fst (estimate_complexity prompt)"
    unfolding estimate_complexity_score by simp
  with assms(6) have m: "select_model self (fst (estimate_complexity prompt)) = ''claude-sonnet''"
    by (simp add: select_model_def)
  have "0 < estimate_cost prompt ''claude-sonnet'' 500"
    by (simp add: estimate_cost_def MODELS_def)
  with s m show ?thesis by simp
qed

lemma fenced_brackets_cloud:
  "0.6 < fst (estimate_complexity fenced_brackets)
   \<and> select_model standard_router (fst (estimate_complexity fenced_brackets)) = ''claude-sonnet''
   \<and> 0 < estimate_cost fenced_brackets
            (select_model standard_router (fst (estimate_complexity fenced_brackets))) 500"
proof (rule fenced_code_implement_cloud [where pattern = "CharClass ''{}[]();''"])
  show "500 < length fenced_brackets"
    by (simp add: fenced_brackets_def padded_prompt_def)
  show "str_contains fenced_brackets ''```''"
    unfolding fenced_brackets_def padded_prompt_def by (rule str_contains_appendI2) simp
  show "str_contains (str_lower fenced_brackets) ''implement''"
    unfolding fenced_brackets_def padded_prompt_def str_lower_replicate
    by (rule str_contains_appendI2) (simp add: str_lower_def lower_char_def)
  show "CharClass ''{}[]();'' \<in> set (tl CODE_PATTERNS)"
    by (simp add: CODE_PATTERNS_def)
  show "re_search (CharClass ''{}[]();'') fenced_brackets"
    by (simp add: fenced_brackets_def padded_prompt_def)
  show "\<not> ternary_available standard_router"
    by (simp add: standard_router_def)
qed

text \<open>
  C1 on the code: a prompt of more than 500 characters with a code fence marker and the
  word "implement" is meant to score above 0.6 and to go to the cloud backend at a positive
  estimated cost. The code does not do that for 500 letters x followed by
  " implement ```?": the fence marker is one matching pattern, the code factor asks for
  two, and the score is 0.5 + 0.1 + 0.0 - 0.1 = 0.5; with the ternary runtime unavailable
  and local routing enabled the prompt goes to phi2 at an estimated cost of 0.
\<close>

theorem fenced_implement_routed_local:
  "500 < length fenced_question
   \<and> str_contains fenced_question ''```'' \<and> str_contains fenced_question ''implement''
   \<and> fst (estimate_complexity fenced_question) = 0.5
   \<and> select_model standard_router (fst (estimate_complexity fenced_question)) = ''phi2''
   \<and> estimate_cost fenced_question
        (select_model standard_router (fst (estimate_complexity fenced_question))) 500 = 0"
proof -
  have "500 < length fenced_question"
    by (simp add: fenced_question_def padded_prompt_def)
  moreover have "str_contains fenced_question ''```''"
    unfolding fenced_question_def padded_prompt_def by (rule str_contains_appendI2) simp
  moreover have "str_contains fenced_question ''implement''"
    unfolding fenced_question_def padded_prompt_def by (rule str_contains_appendI2) simp
  moreover have "select_model standard_router 0.5 = ''phi2''"
    by (simp add: select_model_def standard_router_def)
  moreover have "estimate_cost fenced_question ''phi2'' 500 = 0"
    by (simp add: estimate_cost_def MODELS_def)
  ultimately show ?thesis
    by (simp add: fenced_question_score)
qed

theorem fenced_implement_routed_local_witness:
  "\<not> 0.6 < fst (estimate_complexity fenced_question)
   \<and> select_model standard_router (fst (estimate_complexity fenced_question)) \<noteq> ''claude-sonnet''
   \<and> \<not> 0 < estimate_cost fenced_question
              (select_model standard_router (fst (estimate_complexity fenced_question))) 500"
proof -
  from fenced_implement_routed_local
  have s: "fst (estimate_complexity fenced_question) = 0.5"
    and m: "select_model standard_router (fst (estimate_complexity fenced_question)) = ''phi2''"
    and c: "estimate_cost fenced_question
              (select_model standard_router (fst (estimate_complexity fenced_question))) 500 = 0"
    by blast+
  from s have "\<not> 0.6 < fst (estimate_complexity fenced_question)"
    by simp
  moreover from m
  have "select_model standard_router (fst (estimate_complexity fenced_question)) \<noteq> ''claude-sonnet''"
    by simp
  moreover from c
  have "\<not> 0 < estimate_cost fenced_question
              (select_model standard_router (fst (estimate_complexity fenced_question))) 500"
    by simp
  ultimately show ?thesis by blast
qed

text \<open>
  The tests of the repository state the intent that the code misses here.
  \<open>test_code_presence_increases_complexity\<close> asserts that a question scores higher with
  a fenced block appended, where the fence marker is the only code pattern: the code gives
  0 for both prompts. \<open>test_complex_code_request\<close> asserts a score above 0.6 for a
  request to implement a function: the code gives 0.2.
\<close>

lemma fence_only_block_not_scored:
  "fst (estimate_complexity ''What is a variable?'') = 0
   \<and> fst (estimate_complexity
        (''What is a variable? ```python'' @ [CHR 0x0A] @ ''x = 5'' @ [CHR 0x0A] @ ''```'')) = 0"
  by code_simp

lemma complex_code_request_score:
  "fst (estimate_complexity
     ''Write a Python function to implement binary search tree with insert, delete, and search methods.'')
   = 0.2"
  by code_simp

section \<open>The ternary strategy and its fallback\<close>

lemma ternary_try_post_raises:
  "ternary_post env model prompt = Inl e \<Longrightarrow> ternary_try env model prompt = Inl e"
  by (simp add: ternary_try_def)

lemma ternary_try_bad_status:
  assumes "ternary_post env model prompt = Inr response"
    and "400 \<le> status_code response" and "status_code response < 600"
  shows "ternary_try env model prompt = Inl (HTTPError (status_code response))"
  using assms by (simp add: ternary_try_def raise_for_status_def)

lemma execute_claude_request_backend:
  assumes "execute_claude_request self prompt = Inr result"
  shows "map_of result ''backend'' = Some (JStr ''cloud'')
         \<and> map_of result ''model'' = Some (JStr ''claude-sonnet'')"
  using assms
  by (auto simp add: execute_claude_request_def Let_def
      split: option.splits sum.splits list.splits)

text \<open>
  C5, as the source computes it: whenever the ternary call fails, for any reason (the post
  raises, the status is 4xx or 5xx, the body cannot be read), \<open>execute_ternary_request\<close>
  returns what \<open>execute_claude_request\<close> returns for the prompt. When that is a result,
  its backend field is cloud; when the cloud strategy raises (no client is configured, or
  the cloud call fails), its error reaches the caller.
\<close>

theorem ternary_failure_falls_back:
  assumes "ternary_try env model prompt = Inl e"
  shows "execute_ternary_request self env model prompt = execute_claude_request self prompt
         \<and> (\<forall>result. execute_ternary_request self env model prompt = Inr result
               \<longrightarrow> map_of result ''backend'' = Some (JStr ''cloud''))"
  using assms execute_claude_request_backend [of self prompt]
  by (simp add: execute_ternary_request_def)

theorem ternary_failure_falls_back_witness:
  "ternary_try (failing_env Timeout) ''bitnet-2b'' ''hello'' = Inl Timeout
   \<and> execute_ternary_request cloud_router (failing_env Timeout) ''bitnet-2b'' ''hello''
       = execute_claude_request cloud_router ''hello''
   \<and> execute_ternary_request cloud_router (failing_env Timeout) ''bitnet-2b'' ''hello''
       = Inr [(''model'', JStr ''claude-sonnet''), (''backend'', JStr ''cloud''),
              (''response'', JStr ''hello''), (''input_tokens'', JNum 10),
              (''output_tokens'', JNum 20), (''cost'', JNum 0.00009)]"
proof -
  have t: "ternary_try (failing_env Timeout) ''bitnet-2b'' ''hello'' = Inl Timeout"
    by (simp add: ternary_try_def failing_env_def)
  have c: "execute_claude_request cloud_router ''hello''
       = Inr [(''model'', JStr ''claude-sonnet''), (''backend'', JStr ''cloud''),
              (''response'', JStr ''hello''), (''input_tokens'', JNum 10),
              (''output_tokens'', JNum 20), (''cost'', JNum 0.00009)]"
    by (simp add: execute_claude_request_def cloud_router_def echo_client_def MODELS_def)
  from ternary_failure_falls_back [OF t, of cloud_router] t c show ?thesis
    by simp
qed

text \<open>
  C5 as the specification words it, with a cloud result after every ternary failure, fails
  when no API key was set: the ternary server answers 503, the fallback reaches the guard
  of \<open>execute_claude_request\<close>, and the caller gets the ValueError instead of a result.
\<close>

theorem ternary_failure_counterexample:
  "ternary_try (status_env 503) ''bitnet-2b'' ''hello'' = Inl (HTTPError 503)
   \<and> execute_ternary_request ternary_router (status_env 503) ''bitnet-2b'' ''hello''
       = Inl (ValueError ''Anthropic API key not configured'')"
  by (simp add: execute_ternary_request_def ternary_try_def status_env_def raise_for_status_def
      execute_claude_request_def ternary_router_def)

text \<open>
  C9: if the ternary call fails and no cloud client is configured,
  \<open>execute_ternary_request\<close> raises the configuration error "Anthropic API key not
  configured" to the caller instead of returning a result.
\<close>

theorem ternary_failure_without_credentials:
  assumes "ternary_try env model prompt = Inl e" and "anthropic_client self = None"
  shows "execute_ternary_request self env model prompt
         = Inl (ValueError ''Anthropic API key not configured'')"
  using assms by (simp add: execute_ternary_request_def execute_claude_request_def)

theorem ternary_failure_without_credentials_witness:
  "ternary_try (failing_env ConnectionError) ''mistral-7b-ternary'' ''hello'' = Inl ConnectionError
   \<and> anthropic_client ternary_router = None
   \<and> execute_ternary_request ternary_router (failing_env ConnectionError)
        ''mistral-7b-ternary'' ''hello''
       = Inl (ValueError ''Anthropic API key not configured'')"
proof -
  have t: "ternary_try (failing_env ConnectionError) ''mistral-7b-ternary'' ''hello''
           = Inl ConnectionError"
    by (simp add: ternary_try_def failing_env_def)
  have n: "anthropic_client ternary_router = None"
    by (simp add: ternary_router_def)
  from ternary_failure_without_credentials [OF t n] t n show ?thesis
    by simp
qed

section \<open>Manual model selection at the gateway\<close>

lemma execute_claude_request_io_outcome:
  "fst (execute_claude_request_io self prompt calls) = execute_claude_request self prompt"
  by (simp add: execute_claude_request_io_def execute_claude_request_def split: option.splits)

lemma execute_ternary_request_io_outcome:
  "fst (execute_ternary_request_io self env model prompt calls)
   = execute_ternary_request self env model prompt"
  by (simp add: execute_ternary_request_io_def execute_ternary_request_def Let_def
      execute_claude_request_io_outcome split: sum.splits)

lemma execute_ollama_request_io_outcome:
  "fst (execute_ollama_request_io self env model prompt calls)
   = execute_ollama_request self env model prompt"
  by (simp add: execute_ollama_request_io_def Let_def)

lemma process_request_io_outcome:
  "fst (process_request_io self env prompt calls) = process_request self env prompt"
  by (simp add: process_request_io_def process_request_def Let_def split_def
      execute_claude_request_io_outcome execute_ternary_request_io_outcome
      execute_ollama_request_io_outcome split: sum.splits)

lemma chat_io_outcome:
  "fst (chat_io self env latency data calls) = chat self env latency data"
  by (simp add: chat_io_def chat_def Let_def split_def
      execute_claude_request_io_outcome process_request_io_outcome
      execute_ollama_request_io_outcome split: option.splits)

lemma chat_finish_status: "snd (chat_finish latency outcome) \<noteq> 400"
  by (simp add: chat_finish_def split: sum.splits)

text \<open>
  C10: a manual override (a model other than auto) is accepted exactly for tinyllama, phi2
  and claude-sonnet, which are handed to their executors and never answered with status
  400. Every other name, among them the ternary backends bitnet-2b and mistral-7b-ternary
  of \<open>MODELS\<close>, is answered with the error "Unknown model" and status 400, and the list
  of outbound calls is returned as it was: the request is rejected before any call is made.
\<close>

theorem override_validation:
  assumes "req_prompt data = Some prompt" and "req_model data = Some model_override"
    and "model_override \<noteq> ''auto''"
  shows "chat self env latency data = fst (chat_io self env latency data calls)
         \<and> (model_override = ''tinyllama'' \<or> model_override = ''phi2'' \<longrightarrow>
            chat_io self env latency data calls
              = (chat_finish latency (manual_routing model_override
                   (execute_ollama_request self env model_override prompt)),
                 snd (execute_ollama_request_io self env model_override prompt calls))
            \<and> snd (chat self env latency data) \<noteq> 400)
         \<and> (model_override = ''claude-sonnet'' \<longrightarrow>
            chat_io self env latency data calls
              = (chat_finish latency (manual_routing model_override
                   (execute_claude_request self prompt)),
                 snd (execute_claude_request_io self prompt calls))
            \<and> snd (chat self env latency data) \<noteq> 400)
         \<and> (model_override \<noteq> ''tinyllama'' \<and> model_override \<noteq> ''phi2''
              \<and> model_override \<noteq> ''claude-sonnet'' \<longrightarrow>
            chat_io self env latency data calls
              = ((ErrorBody (''Unknown model: '' @ model_override), 400), calls))
         \<and> (model_override = ''bitnet-2b'' \<or> model_override = ''mistral-7b-ternary'' \<longrightarrow>
            model_override \<in> dom MODELS
            \<and> chat_io self env latency data calls
              = ((ErrorBody (''Unknown model: '' @ model_override), 400), calls))"
proof (intro conjI impI)
  show "chat self env latency data = fst (chat_io self env latency data calls)"
    by (simp only: chat_io_outcome)
next
  assume "model_override = ''tinyllama'' \<or> model_override = ''phi2''"
  with assms show l: "chat_io self env latency data calls
      = (chat_finish latency (manual_routing model_override
           (execute_ollama_request self env model_override prompt)),
         snd (execute_ollama_request_io self env model_override prompt calls))"
    by (auto simp add: chat_io_def split_def execute_ollama_request_io_outcome)
  have "snd (chat self env latency data) = snd (fst (chat_io self env latency data calls))"
    by (simp only: chat_io_outcome)
  then show "snd (chat self env latency data) \<noteq> 400"
    unfolding l by (simp add: chat_finish_status)
next
  assume "model_override = ''claude-sonnet''"
  with assms show c: "chat_io self env latency data calls
      = (chat_finish latency (manual_routing model_override (execute_claude_request self prompt)),
         snd (execute_claude_request_io self prompt calls))"
    by (simp add: chat_io_def split_def execute_claude_request_io_outcome)
  have "snd (chat self env latency data) = snd (fst (chat_io self env latency data calls))"
    by (simp only: chat_io_outcome)
  then show "snd (chat self env latency data) \<noteq> 400"
    unfolding c by (simp add: chat_finish_status)
next
  assume "model_override \<noteq> ''tinyllama'' \<and> model_override \<noteq> ''phi2''
          \<and> model_override \<noteq> ''claude-sonnet''"
  with assms show "chat_io self env latency data calls
      = ((ErrorBody (''Unknown model: '' @ model_override), 400), calls)"
    by (simp add: chat_io_def)
next
  assume "model_override = ''bitnet-2b'' \<or> model_override = ''mistral-7b-ternary''"
  then show "model_override \<in> dom MODELS"
    by (auto simp add: MODELS_def)
next
  assume "model_override = ''bitnet-2b'' \<or> model_override = ''mistral-7b-ternary''"
  with assms show "chat_io self env latency data calls
      = ((ErrorBody (''Unknown model: '' @ model_override), 400), calls)"
    by (auto simp add: chat_io_def)
qed

theorem override_validation_witness:
  "chat_io ternary_router (failing_env ConnectionError) 0
     \<lparr>req_prompt = Some ''hello'', req_model = Some ''bitnet-2b''\<rparr> []
     = ((ErrorBody ''Unknown model: bitnet-2b'', 400), [])
   \<and> ''bitnet-2b'' \<in> dom MODELS
   \<and> chat_io ternary_router (failing_env ConnectionError) 0
       \<lparr>req_prompt = Some ''hello'', req_model = Some ''phi2''\<rparr> []
     = ((ExceptionBody ConnectionError, 500), [PostOllama ''phi'' ''hello''])
   \<and> chat_io cloud_router (failing_env ConnectionError) 0
       \<lparr>req_prompt = Some ''hello'', req_model = Some ''claude-sonnet''\<rparr> []
     = (chat_finish 0 (manual_routing ''claude-sonnet''
          (execute_claude_request cloud_router ''hello'')),
        [CreateMessage ''hello''])
   \<and> snd (chat cloud_router (failing_env ConnectionError) 0
        \<lparr>req_prompt = Some ''hello'', req_model = Some ''claude-sonnet''\<rparr>) = 200"
proof -
  have s: "snd (chat_finish 0 (manual_routing ''claude-sonnet''
         (execute_claude_request cloud_router ''hello''))) = 200"
    by (simp add: chat_finish_def manual_routing_def execute_claude_request_def
        cloud_router_def echo_client_def MODELS_def)
  have o: "chat_finish 0 (manual_routing ''phi2''
         (execute_ollama_request ternary_router (failing_env ConnectionError) ''phi2'' ''hello''))
       = (ExceptionBody ConnectionError, 500)"
    by (simp add: chat_finish_def manual_routing_def execute_ollama_request_def
        failing_env_def ollama_models_def)
  have oc: "snd (execute_ollama_request_io ternary_router (failing_env ConnectionError)
         ''phi2'' ''hello'' []) = [PostOllama ''phi'' ''hello'']"
    by (simp add: execute_ollama_request_io_def ollama_models_def)
  have cc: "snd (execute_claude_request_io cloud_router ''hello'' []) = [CreateMessage ''hello'']"
    by (simp add: execute_claude_request_io_def cloud_router_def)
  from override_validation [of "\<lparr>req_prompt = Some ''hello'', req_model = Some ''bitnet-2b''\<rparr>"
        "''hello''" "''bitnet-2b''" ternary_router "failing_env ConnectionError" 0 "[]"]
     override_validation [of "\<lparr>req_prompt = Some ''hello'', req_model = Some ''phi2''\<rparr>"
        "''hello''" "''phi2''" ternary_router "failing_env ConnectionError" 0 "[]"]
     override_validation [of "\<lparr>req_prompt = Some ''hello'', req_model = Some ''claude-sonnet''\<rparr>"
        "''hello''" "''claude-sonnet''" cloud_router "failing_env ConnectionError" 0 "[]"]
     s o oc cc
  show ?thesis by simp
qed

end
